theory Spec2Isabelle
  imports Main
begin

section \<open>Values, failures and the environment\<close>

text \<open>
  The plugin is \<^verbatim>\<open>superset/ai_superset_assistant.py\<close>. Request bodies arrive through
  \<^verbatim>\<open>request.get_json()\<close>, so the values the handlers touch are the Python objects a JSON
  document parses to: \<^verbatim>\<open>None\<close>, booleans, numbers, strings, lists and dicts. Numbers are
  integers here, and a Python \<^verbatim>\<open>str\<close> is a \<^typ>\<open>string\<close> whose characters stand for the
  code points below 256.
\<close>

datatype json =
    JNull
  | JBool bool
  | JInt int
  | JStr string
  | JList "json list"
  | JDict "(string \<times> json) list"

text \<open>The exceptions the modelled statements can raise; all are subclasses of \<^verbatim>\<open>Exception\<close>.\<close>

datatype error = TypeError | AttributeError | KeyError | BadRequest

text \<open>Python truthiness, as used by \<^verbatim>\<open>not x\<close>, \<^verbatim>\<open>x and y\<close> and \<^verbatim>\<open>x or y\<close>.\<close>

fun truthy :: "json \<Rightarrow> bool" where
  "truthy JNull = False"
| "truthy (JBool b) = b"
| "truthy (JInt n) = (n \<noteq> 0)"
| "truthy (JStr s) = (s \<noteq> [])"
| "truthy (JList xs) = (xs \<noteq> [])"
| "truthy (JDict kvs) = (kvs \<noteq> [])"

text \<open>
  \<^verbatim>\<open>data.get(key, default)\<close>: only a dict has the method; on any other object the
  attribute access raises \<^verbatim>\<open>AttributeError\<close>.
\<close>

fun py_get :: "json \<Rightarrow> string \<Rightarrow> json \<Rightarrow> error + json" where
  "py_get (JDict kvs) k d = Inr (case map_of kvs k of None \<Rightarrow> d | Some v \<Rightarrow> v)"
| "py_get _ k d = Inl AttributeError"

text \<open>
  \<^verbatim>\<open>str.strip()\<close> removes leading and trailing whitespace; below code point 256 the
  whitespace characters of Python are 9 to 13, 28 to 32, 133 and 160.
\<close>

definition isspace :: "char \<Rightarrow> bool" where
  "isspace c = (of_char c \<in> {9, 10, 11, 12, 13, 28, 29, 30, 31, 32, 133, 160 :: nat})"

definition strip :: "string \<Rightarrow> string" where
  "strip s = rev (dropWhile isspace (rev (dropWhile isspace s)))"

text \<open>\<^verbatim>\<open>x.strip()\<close> on a parsed value: only a string has the method.\<close>

fun py_strip :: "json \<Rightarrow> error + string" where
  "py_strip (JStr s) = Inr (strip s)"
| "py_strip _ = Inl AttributeError"

subsection \<open>The session registry\<close>

text \<open>
  \<^verbatim>\<open>self.sessions\<close> is a dict from session id to
  \<^verbatim>\<open>{'created_at': ..., 'username': ...}\<close>. Its keys are only ever written by
  \<^verbatim>\<open>create_session\<close>, so they are strings.
\<close>

record session =
  created_at :: nat
  username :: string

type_synonym registry = "string \<rightharpoonup> session"

text \<open>
  \<^verbatim>\<open>x in self.sessions\<close>: the key is hashed first, so a list or a dict raises
  \<^verbatim>\<open>TypeError\<close> (unhashable type); a hashable object that is not a string equals no key.
\<close>

fun py_in :: "json \<Rightarrow> registry \<Rightarrow> error + bool" where
  "py_in (JStr s) m = Inr (m s \<noteq> None)"
| "py_in (JList xs) m = Inl TypeError"
| "py_in (JDict kvs) m = Inl TypeError"
| "py_in _ m = Inr False"

text \<open>\<^verbatim>\<open>self.sessions[x]\<close>.\<close>

fun py_getitem :: "registry \<Rightarrow> json \<Rightarrow> error + session" where
  "py_getitem m (JStr s) = (case m s of None \<Rightarrow> Inl KeyError | Some v \<Rightarrow> Inr v)"
| "py_getitem m (JList xs) = Inl TypeError"
| "py_getitem m (JDict kvs) = Inl TypeError"
| "py_getitem m _ = Inl KeyError"

text \<open>\<^verbatim>\<open>del self.sessions[x]\<close>.\<close>

fun py_delitem :: "registry \<Rightarrow> json \<Rightarrow> error + registry" where
  "py_delitem m (JStr s) = (case m s of None \<Rightarrow> Inl KeyError | Some v \<Rightarrow> Inr (m(s := None)))"
| "py_delitem m (JList xs) = Inl TypeError"
| "py_delitem m (JDict kvs) = Inl TypeError"
| "py_delitem m _ = Inl KeyError"

text \<open>
  The test \<^verbatim>\<open>not session_id or session_id not in self.sessions\<close>, written three times in
  the source (\<^verbatim>\<open>get_response_stream\<close>, \<^verbatim>\<open>sync_get_response\<close>, \<^verbatim>\<open>generate_stream\<close>).
  \<^verbatim>\<open>or\<close> short-circuits: a falsy id never reaches the membership test.
\<close>

definition unknown_session :: "json \<Rightarrow> registry \<Rightarrow> error + bool" where
  "unknown_session session_id m =
     (if \<not> truthy session_id then Inr True
      else case py_in session_id m of Inl err \<Rightarrow> Inl err | Inr b \<Rightarrow> Inr (\<not> b))"

subsection \<open>What the handlers read from outside\<close>

text \<open>
  \<^verbatim>\<open>current_user\<close> of flask_login: \<open>None\<close> is a proxy that is falsy; otherwise the user
  object with its \<^verbatim>\<open>is_authenticated\<close> flag and its \<^verbatim>\<open>username\<close> attribute, if it has one.
\<close>

record user =
  is_authenticated :: bool
  username_attr :: "string option"

text \<open>
  The environment of one request. \<open>uuid4 k\<close> is the integer of the \<open>k\<close>-th
  \<^verbatim>\<open>uuid.uuid4()\<close> drawn in the process, \<open>now k\<close> the \<open>k\<close>-th reading of
  \<^verbatim>\<open>datetime.now()\<close> in the process (every call reads the clock anew; nothing is assumed
  of the readings), \<open>isoformat\<close> the rendering of a reading, \<open>database_uri\<close> the value of
  \<^verbatim>\<open>os.environ.get('SQLALCHEMY_DATABASE_URI')\<close>, \<open>current_user\<close> what the proxy of
  flask_login resolves to inside the request.
\<close>

record env =
  uuid4 :: "nat \<Rightarrow> nat"
  now :: "nat \<Rightarrow> nat"
  isoformat :: "nat \<Rightarrow> string"
  database_uri :: "string option"
  current_user :: "user option"

text \<open>
  The external collaborator \<^verbatim>\<open>get_stream_agent_responce\<close> is opaque. One call is described
  by its keyword arguments; its behaviour is the finite sequence of fragments it yields
  and how it ends: normally, or by raising an \<^verbatim>\<open>Exception\<close> (at the call itself when the
  sequence is empty, or while the stream is iterated).
\<close>

record call =
  arg_session_id :: json
  arg_message :: string
  arg_md_uri :: "string option"
  arg_username :: string

datatype ending = Completes | Raises

type_synonym collaborator = "call \<Rightarrow> string list \<times> ending"

text \<open>
  The state of an \<^verbatim>\<open>AIAssistantAgent\<close>: the registry, with three observation fields
  the source does not store: how many identifiers have been drawn from \<open>uuid4\<close>, how
  many times the clock has been read, and the calls made to the collaborator, in order.
\<close>

record agent =
  sessions :: registry
  issued :: nat
  clock_reads :: nat
  invocations :: "call list"

section \<open>AIAssistantAgent\<close>

text \<open>\<^verbatim>\<open>__init__\<close>: \<^verbatim>\<open>self.sessions = {}\<close>.\<close>

definition init_agent :: agent where
  "init_agent = \<lparr>sessions = Map.empty, issued = 0, clock_reads = 0, invocations = []\<rparr>"

text \<open>
  \<^verbatim>\<open>getattr(current_user, 'username', 'anonymous') if current_user and
  current_user.is_authenticated else 'anonymous'\<close>
\<close>

definition resolved_username :: "env \<Rightarrow> string" where
  "resolved_username e =
     (case current_user e of
        None \<Rightarrow> ''anonymous''
      | Some u \<Rightarrow>
          if is_authenticated u
          then (case username_attr u of None \<Rightarrow> ''anonymous'' | Some n \<Rightarrow> n)
          else ''anonymous'')"

text \<open>
  \<^verbatim>\<open>str\<close> of a UUID, as the standard library prints it: the 128-bit integer as 32
  lower-case hexadecimal digits, zero padded, in groups of 8, 4, 4, 4 and 12 joined by
  hyphens.
\<close>

definition hexdigits :: string where
  "hexdigits = ''0123456789abcdef''"

definition hex_digit :: "nat \<Rightarrow> char" where
  "hex_digit d = hexdigits ! (d mod 16)"

definition hex32 :: "nat \<Rightarrow> string" where
  "hex32 v = map (\<lambda>i. hex_digit (v div 16 ^ (31 - i))) [0..<32]"

definition uuid_str :: "nat \<Rightarrow> string" where
  "uuid_str v =
     (let h = hex32 (v mod 2 ^ 128)
      in take 8 h @ ''-'' @ take 4 (drop 8 h) @ ''-'' @ take 4 (drop 12 h) @ ''-'' @
         take 4 (drop 16 h) @ ''-'' @ drop 20 h)"

definition create_session :: "env \<Rightarrow> agent \<Rightarrow> string \<times> agent" where
  "create_session e st =
     (let session_id = uuid_str (uuid4 e (issued st))
      in (session_id,
          st\<lparr>sessions := (sessions st)(session_id \<mapsto>
                \<lparr>created_at = now e (clock_reads st), username = resolved_username e\<rparr>),
             issued := Suc (issued st),
             clock_reads := Suc (clock_reads st)\<rparr>))"

definition error_message :: string where
  "error_message =
     ''I'm sorry, I encountered an error while processing your request. Please try again.''"

definition fallback_response :: string where
  "fallback_response = ''I'm experiencing technical difficulties. Please try again later.''"

text \<open>
  \<^verbatim>\<open>get_response_stream\<close> is an async generator; the model returns the list of chunks it
  yields when run to exhaustion. The session test and the username lookup are outside
  its \<^verbatim>\<open>try\<close>, so their exceptions leave the generator; everything the collaborator raises
  is inside and becomes one last chunk, \<open>error_message\<close>.
\<close>

definition get_response_stream ::
  "env \<Rightarrow> collaborator \<Rightarrow> string \<Rightarrow> json \<Rightarrow> string \<Rightarrow> agent \<Rightarrow> (error + string list) \<times> agent"
where
  "get_response_stream e collab message session_id uname st =
     (case unknown_session session_id (sessions st) of
        Inl err \<Rightarrow> (Inl err, st)
      | Inr fresh \<Rightarrow>
          (let (sid, st1) =
                 (if fresh then (case create_session e st of (u, s) \<Rightarrow> (JStr u, s))
                  else (session_id, st))
           in case (if uname = []
                    then (case py_getitem (sessions st1) sid of
                            Inl err \<Rightarrow> Inl err | Inr meta \<Rightarrow> Inr (username meta))
                    else Inr uname) of
                Inl err \<Rightarrow> (Inl err, st1)
              | Inr un \<Rightarrow>
                  (let c = \<lparr>arg_session_id = sid, arg_message = message,
                            arg_md_uri = database_uri e, arg_username = un\<rparr>;
                       (fragments, fin) = collab c
                   in (Inr (filter (\<lambda>chunk. chunk \<noteq> []) fragments @
                            (case fin of Completes \<Rightarrow> [] | Raises \<Rightarrow> [error_message])),
                       st1\<lparr>invocations := invocations st1 @ [c]\<rparr>))))"

text \<open>
  The \<^verbatim>\<open>except\<close> branch of \<^verbatim>\<open>sync_get_response\<close>:
  \<^verbatim>\<open>return fallback_response, session_id or self.create_session()\<close>.
\<close>

definition sync_fallback :: "env \<Rightarrow> json \<Rightarrow> agent \<Rightarrow> (string \<times> json) \<times> agent" where
  "sync_fallback e session_id st =
     (if truthy session_id then ((fallback_response, session_id), st)
      else (case create_session e st of (u, s) \<Rightarrow> ((fallback_response, JStr u), s)))"

definition sync_get_response ::
  "env \<Rightarrow> collaborator \<Rightarrow> string \<Rightarrow> json \<Rightarrow> string \<Rightarrow> agent \<Rightarrow> (string \<times> json) \<times> agent"
where
  "sync_get_response e collab message session_id uname st =
     (case unknown_session session_id (sessions st) of
        Inl err \<Rightarrow> sync_fallback e session_id st
      | Inr fresh \<Rightarrow>
          (let (sid, st1) =
                 (if fresh then (case create_session e st of (u, s) \<Rightarrow> (JStr u, s))
                  else (session_id, st))
           in case get_response_stream e collab message sid uname st1 of
                (Inl err, st2) \<Rightarrow> sync_fallback e sid st2
              | (Inr response_parts, st2) \<Rightarrow> ((concat response_parts, sid), st2)))"

section \<open>AISupersetAssistantView\<close>

text \<open>
  A handler answers with a JSON document and a status (\<^verbatim>\<open>jsonify(...)\<close> alone is status
  200), or with a stream. A stream is the list of the JSON objects of its frames, each
  sent as \<^verbatim>\<open>data: <json>\<close> and a blank line; the textual rendering is not modelled.
\<close>

datatype response = Json_response nat json | Stream_response "json list"

definition session_event :: "json \<Rightarrow> json" where
  "session_event sid = JDict [(''type'', JStr ''session''), (''session_id'', sid)]"

definition chunk_event :: "string \<Rightarrow> json" where
  "chunk_event chunk = JDict [(''type'', JStr ''chunk''), (''content'', JStr chunk)]"

definition done_event :: json where
  "done_event = JDict [(''type'', JStr ''done'')]"

definition error_event :: json where
  "error_event =
     JDict [(''type'', JStr ''error''),
            (''content'', JStr ''I encountered an error. Please try again.'')]"

text \<open>The \<^verbatim>\<open>type\<close> discriminator of a frame.\<close>

definition event_type :: "json \<Rightarrow> string" where
  "event_type ev = (case py_get ev ''type'' JNull of Inr (JStr t) \<Rightarrow> t | _ \<Rightarrow> [])"

text \<open>
  The decorators. \<^verbatim>\<open>admin_only\<close> answers 401 unless the caller is authenticated;
  \<^verbatim>\<open>failure_tolerant\<close> turns any exception of the handler into a 500.
\<close>

definition admin_only :: "env \<Rightarrow> response \<times> agent \<Rightarrow> agent \<Rightarrow> response \<times> agent" where
  "admin_only e run st =
     (case current_user e of
        None \<Rightarrow> (Json_response 401 (JDict [(''error'', JStr ''Authentication required'')]), st)
      | Some u \<Rightarrow>
          if \<not> is_authenticated u
          then (Json_response 401 (JDict [(''error'', JStr ''Authentication required'')]), st)
          else run)"

definition failure_tolerant :: "(error + response) \<times> agent \<Rightarrow> response \<times> agent" where
  "failure_tolerant run =
     (case run of
        (Inl err, st) \<Rightarrow> (Json_response 500 (JDict [(''error'', JStr ''Something went wrong'')]), st)
      | (Inr r, st) \<Rightarrow> (r, st))"

text \<open>
  \<open>body\<close> is what \<^verbatim>\<open>request.get_json()\<close> returns; \<open>None\<close> stands for the call raising
  (no JSON content type, or a body that does not parse).
\<close>

definition get_json :: "json option \<Rightarrow> error + json" where
  "get_json body = (case body of None \<Rightarrow> Inl BadRequest | Some data \<Rightarrow> Inr data)"

definition new_session :: "env \<Rightarrow> agent \<Rightarrow> response \<times> agent" where
  "new_session e st =
     admin_only e
       (failure_tolerant
          (case create_session e st of
             (session_id, st1) \<Rightarrow>
               (Inr (Json_response 200
                       (JDict [(''session_id'', JStr session_id),
                               (''status'', JStr ''created''),
                               (''message'', JStr ''New session initialized'')])),
                st1)))
       st"

text \<open>
  The first lines shared by \<^verbatim>\<open>chat_api\<close> and \<^verbatim>\<open>chat_stream_api\<close>:
  \<^verbatim>\<open>data = request.get_json(); message = data.get('message', '').strip();
  session_id = data.get('session_id')\<close>.
\<close>

definition read_chat_request :: "json option \<Rightarrow> error + string \<times> json" where
  "read_chat_request body =
     (case get_json body of
        Inl err \<Rightarrow> Inl err
      | Inr data \<Rightarrow>
          (case py_get data ''message'' (JStr []) of
             Inl err \<Rightarrow> Inl err
           | Inr m \<Rightarrow>
               (case py_strip m of
                  Inl err \<Rightarrow> Inl err
                | Inr message \<Rightarrow>
                    (case py_get data ''session_id'' JNull of
                       Inl err \<Rightarrow> Inl err
                     | Inr session_id \<Rightarrow> Inr (message, session_id)))))"

text \<open>
  \<^verbatim>\<open>chat_api\<close>. Its inner \<^verbatim>\<open>try\<close> guards \<^verbatim>\<open>sync_get_response\<close>, which handles every
  \<^verbatim>\<open>Exception\<close> itself, so the inner 500 has no branch here. The \<^verbatim>\<open>timestamp\<close> of the
  reply is a clock reading of its own, taken after the relay has returned.
\<close>

definition chat_api :: "env \<Rightarrow> collaborator \<Rightarrow> json option \<Rightarrow> agent \<Rightarrow> response \<times> agent" where
  "chat_api e collab body st =
     admin_only e
       (failure_tolerant
          (case read_chat_request body of
             Inl err \<Rightarrow> (Inl err, st)
           | Inr (message, session_id) \<Rightarrow>
               if message = []
               then (Inr (Json_response 400 (JDict [(''error'', JStr ''Message is required'')])), st)
               else (case sync_get_response e collab message session_id (resolved_username e) st of
                       ((response, sid), st1) \<Rightarrow>
                         (Inr (Json_response 200
                                 (JDict [(''response'', JStr response),
                                         (''session_id'', sid),
                                         (''timestamp'',
                                            JStr (isoformat e (now e (clock_reads st1))))])),
                          st1\<lparr>clock_reads := Suc (clock_reads st1)\<rparr>))))
       st"

text \<open>
  \<^verbatim>\<open>generate_stream\<close>, run to exhaustion: the frames it yields and the agent afterwards.
  The whole body is one \<^verbatim>\<open>try\<close>; an exception ends it with the \<open>error\<close> frame, after
  whatever was yielded before. \<^verbatim>\<open>stream_response\<close> forwards a chunk only
  \<^verbatim>\<open>if chunk and chunk.strip()\<close>.
\<close>

definition generate_stream ::
  "env \<Rightarrow> collaborator \<Rightarrow> string \<Rightarrow> json \<Rightarrow> agent \<Rightarrow> json list \<times> agent"
where
  "generate_stream e collab message session_id st =
     (case unknown_session session_id (sessions st) of
        Inl err \<Rightarrow> ([error_event], st)
      | Inr fresh \<Rightarrow>
          (let (new_session_id, st1) =
                 (if fresh then (case create_session e st of (u, s) \<Rightarrow> (JStr u, s))
                  else (session_id, st));
               uname = resolved_username e
           in case get_response_stream e collab message new_session_id uname st1 of
                (Inl err, st2) \<Rightarrow> ([session_event new_session_id, error_event], st2)
              | (Inr chunks, st2) \<Rightarrow>
                  (session_event new_session_id #
                   map chunk_event (filter (\<lambda>chunk. chunk \<noteq> [] \<and> strip chunk \<noteq> []) chunks) @
                   [done_event],
                   st2)))"

text \<open>
  \<^verbatim>\<open>chat_stream_api\<close> hands \<^verbatim>\<open>generate_stream()\<close> to \<^verbatim>\<open>Response\<close> as it is, without
  \<^verbatim>\<open>stream_with_context\<close>: the body of the generator runs while the response is sent,
  after the request context is gone, and there the proxy \<^verbatim>\<open>current_user\<close> of flask_login
  resolves to \<^verbatim>\<open>None\<close>. So inside the generator, also in the \<^verbatim>\<open>create_session\<close> it calls,
  the username resolves to \<^verbatim>\<open>'anonymous'\<close>.
\<close>

definition outside_request_context :: "env \<Rightarrow> env" where
  "outside_request_context e = e\<lparr>current_user := None\<rparr>"

definition chat_stream_api ::
  "env \<Rightarrow> collaborator \<Rightarrow> json option \<Rightarrow> agent \<Rightarrow> response \<times> agent"
where
  "chat_stream_api e collab body st =
     admin_only e
       (failure_tolerant
          (case read_chat_request body of
             Inl err \<Rightarrow> (Inl err, st)
           | Inr (message, session_id) \<Rightarrow>
               if message = []
               then (Inr (Json_response 400 (JDict [(''error'', JStr ''Message is required'')])), st)
               else (case generate_stream (outside_request_context e) collab message
                            session_id st of
                       (frames, st1) \<Rightarrow> (Inr (Stream_response frames), st1))))
       st"

text \<open>
  \<^verbatim>\<open>clear_session\<close>: \<^verbatim>\<open>if session_id and session_id in self.ai_agent.sessions\<close> deletes
  the entry; \<^verbatim>\<open>and\<close> short-circuits on a falsy id.
\<close>

definition clear_session :: "env \<Rightarrow> json option \<Rightarrow> agent \<Rightarrow> response \<times> agent" where
  "clear_session e body st =
     admin_only e
       (failure_tolerant
          (case get_json body of
             Inl err \<Rightarrow> (Inl err, st)
           | Inr data \<Rightarrow>
               (case py_get data ''session_id'' JNull of
                  Inl err \<Rightarrow> (Inl err, st)
                | Inr session_id \<Rightarrow>
                    (case (if truthy session_id then py_in session_id (sessions st)
                           else Inr False) of
                       Inl err \<Rightarrow> (Inl err, st)
                     | Inr True \<Rightarrow>
                         (case py_delitem (sessions st) session_id of
                            Inl err \<Rightarrow> (Inl err, st)
                          | Inr m \<Rightarrow>
                              (Inr (Json_response 200
                                      (JDict [(''message'', JStr ''Session cleared successfully'')])),
                               st\<lparr>sessions := m\<rparr>))
                     | Inr False \<Rightarrow>
                         (Inr (Json_response 404 (JDict [(''error'', JStr ''Session not found'')])),
                          st)))))
       st"

section \<open>Vocabulary of the properties\<close>

text \<open>The caller passes \<^verbatim>\<open>admin_only\<close>.\<close>

definition authenticated :: "env \<Rightarrow> bool" where
  "authenticated e = (case current_user e of None \<Rightarrow> False | Some u \<Rightarrow> is_authenticated u)"

text \<open>\<^verbatim>\<open>hash(x)\<close> succeeds: every parsed value but a list or a dict.\<close>

fun hashable :: "json \<Rightarrow> bool" where
  "hashable (JList xs) = False"
| "hashable (JDict kvs) = False"
| "hashable _ = True"

text \<open>The identifiers handed out so far by \<open>create_session\<close>, as the generator numbers them.\<close>

definition issued_ids :: "env \<Rightarrow> agent \<Rightarrow> string set" where
  "issued_ids e st = (\<lambda>k. uuid_str (uuid4 e k)) ` {..<issued st}"


text \<open>
  The invariant of the registry: every key was handed out by \<open>create_session\<close>. It
  holds of \<open>init_agent\<close> and every operation keeps it.
\<close>

definition registry_ok :: "env \<Rightarrow> agent \<Rightarrow> bool" where
  "registry_ok e st = (dom (sessions st) \<subseteq> issued_ids e st)"



text \<open>
  The chunks \<open>get_response_stream\<close> yields for a collaborator behaviour, and the keyword
  arguments it passes; both are read off its definition.
\<close>

definition relayed :: "string list \<times> ending \<Rightarrow> string list" where
  "relayed r =
     filter (\<lambda>chunk. chunk \<noteq> []) (fst r) @
     (case snd r of Completes \<Rightarrow> [] | Raises \<Rightarrow> [error_message])"

definition relay_call :: "env \<Rightarrow> string \<Rightarrow> json \<Rightarrow> string \<Rightarrow> call" where
  "relay_call e message sid un =
     \<lparr>arg_session_id = sid, arg_message = message,
      arg_md_uri = database_uri e, arg_username = un\<rparr>"

subsection \<open>Concrete inputs\<close>

definition admin :: user where
  "admin = \<lparr>is_authenticated = True, username_attr = Some ''admin''\<rparr>"

definition env0 :: env where
  "env0 = \<lparr>uuid4 = (\<lambda>k. k), now = (\<lambda>k. 1700000000 + k),
           isoformat = (\<lambda>t. ''2023-11-14T22:13:20''),
           database_uri = Some ''postgresql://superset'', current_user = Some admin\<rparr>"

text \<open>A collaborator that raises at once, one that yields text, one that yields blanks.\<close>

definition failing :: collaborator where
  "failing c = ([], Raises)"

definition talking :: collaborator where
  "talking c = ([''Hello'', [], '', '', ''world''], Completes)"

definition blank :: collaborator where
  "blank c = (['' ''], Completes)"

definition hello_body :: json where
  "hello_body = JDict [(''message'', JStr '' hello '')]"

text \<open>A body whose message is blank, and one whose session id is a list.\<close>

definition blank_body :: json where
  "blank_body = JDict [(''message'', JStr ''  '')]"

definition list_id_body :: json where
  "list_id_body = JDict [(''message'', JStr ''hello''), (''session_id'', JList [JInt 1])]"

text \<open>Bodies for \<^verbatim>\<open>clear_session\<close>: the first identifier handed out, and an empty one.\<close>

definition first_id_body :: json where
  "first_id_body = JDict [(''session_id'', JStr (uuid_str 0))]"

definition empty_id_body :: json where
  "empty_id_body = JDict [(''session_id'', JStr [])]"


text \<open>The agent after one \<^verbatim>\<open>create_session\<close>.\<close>

definition agent1 :: agent where
  "agent1 = snd (create_session env0 init_agent)"

section \<open>Facts about the building blocks\<close>

lemma uuid_str_nonempty [simp]: "uuid_str v \<noteq> []"
  by (simp add: uuid_str_def Let_def)








lemma all_dropWhile: "(\<forall>x\<in>set (dropWhile P s). P x) \<longleftrightarrow> (\<forall>x\<in>set s. P x)"
  by (induction s) auto

lemma strip_Nil_iff: "strip s = [] \<longleftrightarrow> (\<forall>c\<in>set s. isspace c)"
  by (simp add: strip_def all_dropWhile)

lemma strip_Nil [simp]: "strip [] = []"
  by (simp add: strip_def)

lemma strip_error_message: "strip error_message \<noteq> []"
proof -
  have "CHR ''I'' \<in> set error_message" by (simp add: error_message_def)
  moreover have "\<not> isspace (CHR ''I'')" by (simp add: isspace_def)
  ultimately show ?thesis unfolding strip_Nil_iff by blast
qed

lemma error_message_neq_fallback: "error_message \<noteq> fallback_response"
  by (simp add: error_message_def fallback_response_def)

lemma unknown_session_JStr: "unknown_session (JStr s) m = Inr (s = [] \<or> m s = None)"
  by (simp add: unknown_session_def)

lemma unknown_session_hashable:
  "hashable sid \<or> \<not> truthy sid \<Longrightarrow> \<exists>b. unknown_session sid m = Inr b"
  by (cases sid) (auto simp: unknown_session_def)


lemma unknown_session_False:
  "unknown_session sid m = Inr False \<Longrightarrow> \<exists>s. sid = JStr s \<and> s \<noteq> [] \<and> m s \<noteq> None"
  by (cases sid) (auto simp: unknown_session_def split: if_splits)

lemma unknown_session_error:
  "unknown_session sid m = Inl err \<Longrightarrow> truthy sid \<and> \<not> hashable sid \<and> err = TypeError"
  by (cases sid) (auto simp: unknown_session_def split: if_splits)

lemma create_session_fst: "fst (create_session e st) = uuid_str (uuid4 e (issued st))"
  by (simp add: create_session_def Let_def)

lemma create_session_sessions:
  "sessions (snd (create_session e st)) =
     (sessions st)(uuid_str (uuid4 e (issued st)) \<mapsto>
        \<lparr>created_at = now e (clock_reads st), username = resolved_username e\<rparr>)"
  by (simp add: create_session_def Let_def)

lemma create_session_issued: "issued (snd (create_session e st)) = Suc (issued st)"
  by (simp add: create_session_def Let_def)

lemma create_session_clock_reads:
  "clock_reads (snd (create_session e st)) = Suc (clock_reads st)"
  by (simp add: create_session_def Let_def)

lemma create_session_invocations: "invocations (snd (create_session e st)) = invocations st"
  by (simp add: create_session_def Let_def)

lemma get_response_stream_known:
  assumes "sessions st s = Some meta" and "s \<noteq> []"
  shows "get_response_stream e collab message (JStr s) uname st =
           (Inr (relayed (collab (relay_call e message (JStr s)
                                    (if uname = [] then username meta else uname)))),
            st\<lparr>invocations := invocations st @
                 [relay_call e message (JStr s) (if uname = [] then username meta else uname)]\<rparr>)"
  using assms
  by (simp add: get_response_stream_def unknown_session_def relay_call_def relayed_def Let_def
           split: prod.splits)

lemma sync_get_response_known:
  assumes "sessions st s = Some meta" and "s \<noteq> []"
  shows "sync_get_response e collab message (JStr s) uname st =
           ((concat (relayed (collab (relay_call e message (JStr s)
                                       (if uname = [] then username meta else uname)))), JStr s),
            st\<lparr>invocations := invocations st @
                 [relay_call e message (JStr s) (if uname = [] then username meta else uname)]\<rparr>)"
  using assms
  by (simp add: sync_get_response_def unknown_session_JStr get_response_stream_known)

lemma sync_get_response_fresh:
  assumes "unknown_session session_id (sessions st) = Inr True"
  shows "sync_get_response e collab message session_id uname st =
           sync_get_response e collab message (JStr (fst (create_session e st))) uname
             (snd (create_session e st))"
proof -
  obtain u st1 where cs: "create_session e st = (u, st1)"
    by (cases "create_session e st")
  have u: "u \<noteq> []"
    using create_session_fst [of e st] cs by simp
  have "sessions st1 u = Some \<lparr>created_at = now e (clock_reads st), username = resolved_username e\<rparr>"
    using create_session_sessions [of e st] create_session_fst [of e st] cs by simp
  then show ?thesis
    using assms cs u by (simp add: sync_get_response_def unknown_session_JStr)
qed

lemma sync_get_response_unhashable:
  assumes "unknown_session session_id (sessions st) = Inl err"
  shows "sync_get_response e collab message session_id uname st =
           ((fallback_response, session_id), st)"
  using assms unknown_session_error [OF assms]
  by (simp add: sync_get_response_def sync_fallback_def)

lemma concat_filter_nonempty: "concat (filter (\<lambda>x. x \<noteq> []) xs) = concat xs"
  by (induction xs) simp_all

section \<open>Printing a UUID loses nothing\<close>









lemma relayed_Completes: "snd r = Completes \<Longrightarrow> concat (relayed r) = concat (fst r)"
  by (simp add: relayed_def concat_filter_nonempty)

lemma relayed_Raises: "snd r = Raises \<Longrightarrow> concat (relayed r) = concat (fst r) @ error_message"
  by (simp add: relayed_def concat_filter_nonempty)

lemma registry_ok_nonempty:
  assumes "registry_ok e st" and "sessions st s \<noteq> None"
  shows "s \<noteq> []"
proof -
  have "s \<in> issued_ids e st"
    using assms by (auto simp: registry_ok_def)
  then show ?thesis
    by (auto simp: issued_ids_def)
qed

lemma registry_ok_init: "registry_ok e init_agent"
  by (simp add: registry_ok_def init_agent_def)

lemma issued_ids_create_session:
  "issued_ids e (snd (create_session e st)) =
     insert (uuid_str (uuid4 e (issued st))) (issued_ids e st)"
  by (simp add: issued_ids_def create_session_issued lessThan_Suc)

lemma registry_ok_create_session:
  "registry_ok e st \<Longrightarrow> registry_ok e (snd (create_session e st))"
  by (auto simp: registry_ok_def issued_ids_create_session create_session_sessions)

lemma registry_ok_clock_reads [simp]:
  "registry_ok e (st\<lparr>clock_reads := n\<rparr>) = registry_ok e st"
  by (simp add: registry_ok_def issued_ids_def)

lemma registry_ok_invocations [simp]:
  "registry_ok e (st\<lparr>invocations := cs\<rparr>) = registry_ok e st"
  by (simp add: registry_ok_def issued_ids_def)

text \<open>What one run of the one-shot relay does, for an id the membership test accepts.\<close>

lemma sync_get_response_relays:
  assumes "hashable session_id \<or> \<not> truthy session_id"
  shows "\<exists>c sid st'.
           sync_get_response e collab message session_id uname st =
             ((concat (relayed (collab c)), sid), st') \<and>
           invocations st' = invocations st @ [c] \<and>
           arg_message c = message \<and> arg_session_id c = sid \<and>
           unknown_session sid (sessions st') = Inr False \<and>
           sid = (if unknown_session session_id (sessions st) = Inr False then session_id
                  else JStr (uuid_str (uuid4 e (issued st)))) \<and>
           sessions st' = (if unknown_session session_id (sessions st) = Inr False then sessions st
                  else sessions (snd (create_session e st))) \<and>
           issued st' = (if unknown_session session_id (sessions st) = Inr False then issued st
                  else Suc (issued st)) \<and>
           clock_reads st' =
             (if unknown_session session_id (sessions st) = Inr False then clock_reads st
              else Suc (clock_reads st))"
proof -
  obtain b where b: "unknown_session session_id (sessions st) = Inr b"
    using unknown_session_hashable [OF assms] by blast
  show ?thesis
  proof (cases b)
    case False
    then obtain s meta where s: "session_id = JStr s" "s \<noteq> []" "sessions st s = Some meta"
      using unknown_session_False [of session_id "sessions st"] b by auto
    show ?thesis
      using b False s
      by (simp add: sync_get_response_known [OF s(3) s(2)] relay_call_def unknown_session_JStr)
  next
    case True
    define u where "u = uuid_str (uuid4 e (issued st))"
    define st1 where "st1 = snd (create_session e st)"
    have m: "sessions st1 u = Some \<lparr>created_at = now e (clock_reads st), username = resolved_username e\<rparr>"
      by (simp add: st1_def u_def create_session_sessions)
    have ne: "u \<noteq> []" by (simp add: u_def)
    have "sync_get_response e collab message session_id uname st =
            sync_get_response e collab message (JStr u) uname st1"
      using b True by (simp add: sync_get_response_fresh create_session_fst u_def st1_def)
    then show ?thesis
      using b True m ne
      by (simp add: sync_get_response_known [OF m ne] relay_call_def unknown_session_JStr
            u_def [symmetric] st1_def [symmetric])
        (simp add: st1_def create_session_issued create_session_invocations
           create_session_clock_reads)
  qed
qed

lemma uuid_str_zero: "uuid_str 0 = ''00000000-0000-0000-0000-000000000000''"
  by (simp add: uuid_str_def hex32_def hex_digit_def hexdigits_def upt_rec)

lemma agent1_sessions:
  "sessions agent1 = [uuid_str 0 \<mapsto> \<lparr>created_at = 1700000000, username = ''admin''\<rparr>]"
  by (simp add: agent1_def create_session_sessions init_agent_def env0_def
        resolved_username_def admin_def)

lemma registry_ok_agent1: "registry_ok env0 agent1"
  unfolding agent1_def by (rule registry_ok_create_session) (rule registry_ok_init)

section \<open>The one-shot relay\<close>

text \<open>
  C1 as stated fails. The claim has \<open>sync_get_response\<close> return its own fallback string
  when the collaborator raises. The exception never reaches \<open>sync_get_response\<close>:
  \<open>get_response_stream\<close> catches it and yields \<open>error_message\<close> as a last chunk. With
  a collaborator that raises at once, the response is \<open>error_message\<close>, which is not
  \<open>fallback_response\<close>.
\<close>

theorem sync_get_response_apology_counterexample:
  "failing (relay_call env0 ''hello'' (JStr (uuid_str 0)) ''admin'') = ([], Raises) \<and>
   fst (sync_get_response env0 failing ''hello'' JNull ''admin'' init_agent) =
     (error_message, JStr (uuid_str 0)) \<and>
   invocations (snd (sync_get_response env0 failing ''hello'' JNull ''admin'' init_agent)) =
     [relay_call env0 ''hello'' (JStr (uuid_str 0)) ''admin''] \<and>
   error_message \<noteq> fallback_response"
proof -
  have fresh: "unknown_session JNull (sessions init_agent) = Inr True"
    by (simp add: unknown_session_def)
  have cs: "create_session env0 init_agent = (uuid_str 0, agent1)"
    by (simp add: agent1_def create_session_def Let_def init_agent_def env0_def)
  have m: "sessions agent1 (uuid_str 0) = Some \<lparr>created_at = 1700000000, username = ''admin''\<rparr>"
    by (simp add: agent1_sessions)
  have inv: "invocations agent1 = []"
    by (simp add: agent1_def create_session_invocations init_agent_def)
  have "sync_get_response env0 failing ''hello'' JNull ''admin'' init_agent =
          sync_get_response env0 failing ''hello'' (JStr (uuid_str 0)) ''admin'' agent1"
    using sync_get_response_fresh [OF fresh] cs by simp
  then show ?thesis
    by (simp add: sync_get_response_known [OF m] failing_def relayed_def inv
          error_message_neq_fallback)
qed

text \<open>
  C1, amended. For every message and every session id the membership test accepts,
  \<open>sync_get_response\<close> returns; it calls the collaborator once, with that message and
  the session id it returns; that id is a key of the registry afterwards (a fresh one
  if needed); and if the call raises, the response is the concatenation of the fragments
  yielded before the failure followed by \<open>error_message\<close>, the apology of
  \<open>get_response_stream\<close>. The result type has no failure: nothing propagates.
\<close>

theorem sync_get_response_collaborator_raises:
  assumes "hashable session_id"
  shows "\<exists>c response sid st'.
           sync_get_response e collab message session_id uname st = ((response, sid), st') \<and>
           invocations st' = invocations st @ [c] \<and>
           arg_message c = message \<and> arg_session_id c = sid \<and>
           unknown_session sid (sessions st') = Inr False \<and>
           (snd (collab c) = Raises \<longrightarrow> response = concat (fst (collab c)) @ error_message)"
proof -
  obtain c sid st' where
    "sync_get_response e collab message session_id uname st =
       ((concat (relayed (collab c)), sid), st')"
    "invocations st' = invocations st @ [c]" "arg_message c = message" "arg_session_id c = sid"
    "unknown_session sid (sessions st') = Inr False"
    using sync_get_response_relays [OF disjI1 [OF assms], of e collab message uname st] by blast
  then show ?thesis
    by (auto simp: relayed_Raises)
qed

theorem sync_get_response_collaborator_raises_witness:
  "hashable JNull \<and>
   fst (fst (sync_get_response env0 failing ''hello'' JNull ''admin'' init_agent)) = error_message"
proof -
  have h: "hashable JNull" by simp
  obtain c response sid st' where
    r: "sync_get_response env0 failing ''hello'' JNull ''admin'' init_agent = ((response, sid), st')"
    and "snd (failing c) = Raises \<longrightarrow> response = concat (fst (failing c)) @ error_message"
    using sync_get_response_collaborator_raises [OF h, of env0 failing "''hello''" "''admin''" init_agent]
    by blast
  then have "response = error_message"
    by (simp add: failing_def)
  with r h show ?thesis by simp
qed

text \<open>
  C4. For every message and every session id the membership test accepts,
  \<open>sync_get_response\<close> calls the collaborator once with that message, and if the call
  completes normally the response is the in-order concatenation of all the fragments it
  yielded, paired with the session id that was passed to the call.
\<close>

theorem sync_get_response_concatenates:
  assumes "hashable session_id"
  shows "\<exists>c response sid st'.
           sync_get_response e collab message session_id uname st = ((response, sid), st') \<and>
           invocations st' = invocations st @ [c] \<and>
           arg_message c = message \<and> arg_session_id c = sid \<and>
           (snd (collab c) = Completes \<longrightarrow> response = concat (fst (collab c)))"
proof -
  obtain c sid st' where
    "sync_get_response e collab message session_id uname st =
       ((concat (relayed (collab c)), sid), st')"
    "invocations st' = invocations st @ [c]" "arg_message c = message" "arg_session_id c = sid"
    using sync_get_response_relays [OF disjI1 [OF assms], of e collab message uname st] by blast
  then show ?thesis
    by (auto simp: relayed_Completes)
qed

theorem sync_get_response_concatenates_witness:
  "hashable JNull \<and>
   fst (fst (sync_get_response env0 talking ''hello'' JNull ''admin'' init_agent)) =
     ''Hello, world''"
proof -
  have h: "hashable JNull" by simp
  obtain c response sid st' where
    r: "sync_get_response env0 talking ''hello'' JNull ''admin'' init_agent = ((response, sid), st')"
    and "snd (talking c) = Completes \<longrightarrow> response = concat (fst (talking c))"
    using sync_get_response_concatenates [OF h, of env0 talking "''hello''" "''admin''" init_agent]
    by blast
  then have "response = ''Hello, world''"
    by (simp add: talking_def)
  with r h show ?thesis by simp
qed

text \<open>
  C9. When the supplied session id is a key of the registry, \<open>sync_get_response\<close>
  returns that same id and leaves the registry as it was, whatever the collaborator does
  (\<open>collab\<close> is arbitrary: it may complete or raise).
\<close>

theorem sync_get_response_known_session_frame:
  assumes "registry_ok e st" and "sessions st s \<noteq> None"
  shows "snd (fst (sync_get_response e collab message (JStr s) uname st)) = JStr s \<and>
         sessions (snd (sync_get_response e collab message (JStr s) uname st)) = sessions st"
proof -
  obtain meta where m: "sessions st s = Some meta"
    using assms(2) by blast
  have ne: "s \<noteq> []"
    using assms by (rule registry_ok_nonempty)
  show ?thesis
    by (simp add: sync_get_response_known [OF m ne])
qed

theorem sync_get_response_known_session_frame_witness:
  "registry_ok env0 agent1 \<and> sessions agent1 (uuid_str 0) \<noteq> None \<and>
   snd (fst (sync_get_response env0 failing ''hello'' (JStr (uuid_str 0)) ''admin'' agent1)) =
     JStr (uuid_str 0) \<and>
   sessions (snd (sync_get_response env0 failing ''hello'' (JStr (uuid_str 0)) ''admin'' agent1)) =
     sessions agent1"
proof -
  have m: "sessions agent1 (uuid_str 0) \<noteq> None"
    by (simp add: agent1_sessions)
  show ?thesis
    using sync_get_response_known_session_frame [OF registry_ok_agent1 m, of failing "''hello''" "''admin''"]
      registry_ok_agent1 m by simp
qed

section \<open>The streaming relay\<close>

lemma event_type_session [simp]: "event_type (session_event sid) = ''session''"
  by (simp add: event_type_def session_event_def)

lemma event_type_chunk [simp]: "event_type (chunk_event c) = ''chunk''"
  by (simp add: event_type_def chunk_event_def)

lemma event_type_done [simp]: "event_type done_event = ''done''"
  by (simp add: event_type_def done_event_def)

lemma event_type_error [simp]: "event_type error_event = ''error''"
  by (simp add: event_type_def error_event_def)

lemma filter_not_blank:
  "filter (\<lambda>chunk. chunk \<noteq> [] \<and> strip chunk \<noteq> []) xs = filter (\<lambda>f. strip f \<noteq> []) xs"
  by (rule filter_cong) auto

lemma stream_chunks:
  "filter (\<lambda>chunk. chunk \<noteq> [] \<and> strip chunk \<noteq> []) (relayed r) =
     filter (\<lambda>f. strip f \<noteq> []) (fst r) @
     (case snd r of Completes \<Rightarrow> [] | Raises \<Rightarrow> [error_message])"
proof -
  have "filter (\<lambda>f. strip f \<noteq> []) (filter (\<lambda>chunk. chunk \<noteq> []) (fst r)) =
          filter (\<lambda>f. strip f \<noteq> []) (fst r)"
    by (induction "fst r") (auto intro: filter_cong)
  then show ?thesis
    by (cases "snd r") (simp_all add: filter_not_blank relayed_def strip_error_message)
qed

lemma generate_stream_known:
  assumes "sessions st s = Some meta" and "s \<noteq> []"
  shows "generate_stream e collab message (JStr s) st =
           (session_event (JStr s) #
            map chunk_event
              (filter (\<lambda>chunk. chunk \<noteq> [] \<and> strip chunk \<noteq> [])
                 (relayed (collab (relay_call e message (JStr s)
                    (if resolved_username e = [] then username meta else resolved_username e))))) @
            [done_event],
            st\<lparr>invocations := invocations st @
                 [relay_call e message (JStr s)
                    (if resolved_username e = [] then username meta else resolved_username e)]\<rparr>)"
  using assms
  by (simp add: generate_stream_def unknown_session_JStr get_response_stream_known)

lemma generate_stream_fresh:
  assumes "unknown_session session_id (sessions st) = Inr True"
  shows "generate_stream e collab message session_id st =
           generate_stream e collab message (JStr (fst (create_session e st)))
             (snd (create_session e st))"
proof -
  obtain u st1 where cs: "create_session e st = (u, st1)"
    by (cases "create_session e st")
  have u: "u \<noteq> []"
    using create_session_fst [of e st] cs by simp
  have "sessions st1 u = Some \<lparr>created_at = now e (clock_reads st), username = resolved_username e\<rparr>"
    using create_session_sessions [of e st] create_session_fst [of e st] cs by simp
  then show ?thesis
    using assms cs u by (simp add: generate_stream_def unknown_session_JStr)
qed

lemma generate_stream_unhashable:
  assumes "unknown_session session_id (sessions st) = Inl err"
  shows "generate_stream e collab message session_id st = ([error_event], st)"
  using assms by (simp add: generate_stream_def)

text \<open>What one run of the streaming relay does, for an id the membership test accepts.\<close>

lemma generate_stream_relays:
  assumes "hashable session_id \<or> \<not> truthy session_id"
  shows "\<exists>c st'.
           generate_stream e collab message session_id st =
             (session_event (arg_session_id c) #
              map chunk_event (filter (\<lambda>f. strip f \<noteq> []) (fst (collab c))) @
              (case snd (collab c) of Completes \<Rightarrow> [] | Raises \<Rightarrow> [chunk_event error_message]) @
              [done_event], st') \<and>
           invocations st' = invocations st @ [c] \<and>
           arg_message c = message \<and>
           unknown_session (arg_session_id c) (sessions st') = Inr False \<and>
           arg_session_id c =
             (if unknown_session session_id (sessions st) = Inr False then session_id
              else JStr (uuid_str (uuid4 e (issued st)))) \<and>
           sessions st' = (if unknown_session session_id (sessions st) = Inr False then sessions st
                  else sessions (snd (create_session e st))) \<and>
           issued st' = (if unknown_session session_id (sessions st) = Inr False then issued st
                  else Suc (issued st)) \<and>
           clock_reads st' =
             (if unknown_session session_id (sessions st) = Inr False then clock_reads st
              else Suc (clock_reads st))"
proof -
  obtain b where b: "unknown_session session_id (sessions st) = Inr b"
    using unknown_session_hashable [OF assms] by blast
  show ?thesis
  proof (cases b)
    case False
    then obtain s meta where s: "session_id = JStr s" "s \<noteq> []" "sessions st s = Some meta"
      using unknown_session_False [of session_id "sessions st"] b by auto
    show ?thesis
      using b False s
      by (cases "snd (collab (relay_call e message (JStr s)
                    (if resolved_username e = [] then username meta else resolved_username e)))")
         (simp_all add: generate_stream_known [OF s(3) s(2)] stream_chunks relay_call_def
            unknown_session_JStr)
  next
    case True
    define u where "u = uuid_str (uuid4 e (issued st))"
    define st1 where "st1 = snd (create_session e st)"
    have m: "sessions st1 u = Some \<lparr>created_at = now e (clock_reads st), username = resolved_username e\<rparr>"
      by (simp add: st1_def u_def create_session_sessions)
    have ne: "u \<noteq> []" by (simp add: u_def)
    have "generate_stream e collab message session_id st =
            generate_stream e collab message (JStr u) st1"
      using b True by (simp add: generate_stream_fresh create_session_fst u_def st1_def)
    moreover define c where "c = relay_call e message (JStr u) (resolved_username e)"
    moreover have "(if resolved_username e = []
                    then username \<lparr>created_at = now e (clock_reads st), username = resolved_username e\<rparr>
                    else resolved_username e) = resolved_username e"
      by simp
    ultimately have run: "generate_stream e collab message session_id st =
        (session_event (JStr u) #
         map chunk_event (filter (\<lambda>chunk. chunk \<noteq> [] \<and> strip chunk \<noteq> []) (relayed (collab c))) @
         [done_event],
         st1\<lparr>invocations := invocations st1 @ [c]\<rparr>)"
      using generate_stream_known [OF m ne, of e collab message] by simp
    have c: "arg_session_id c = JStr u" "arg_message c = message"
      by (simp_all add: c_def relay_call_def)
    have st1: "invocations st1 = invocations st" "issued st1 = Suc (issued st)"
      "clock_reads st1 = Suc (clock_reads st)"
      by (simp_all add: st1_def create_session_invocations create_session_issued
            create_session_clock_reads)
    show ?thesis
      apply (rule exI [of _ c])
      apply (rule exI [of _ "st1\<lparr>invocations := invocations st1 @ [c]\<rparr>"])
      using b True m ne c st1 run
      by (cases "snd (collab c)")
         (simp_all add: stream_chunks unknown_session_JStr u_def [symmetric] st1_def [symmetric])
  qed
qed

lemma generate_stream_shapes:
  "fst (generate_stream e collab message session_id st) = [error_event] \<or>
   (\<exists>s. fst (generate_stream e collab message session_id st) = [session_event s, error_event]) \<or>
   (\<exists>s cs. fst (generate_stream e collab message session_id st) =
             session_event s # map chunk_event cs @ [done_event])"
  by (auto simp: generate_stream_def Let_def split: sum.splits prod.splits if_splits)

lemma error_only_last:
  assumes "\<forall>x\<in>set (butlast frames). event_type x \<noteq> ''error''"
    and "frames = before @ ev # after" and "event_type ev = ''error''"
  shows "after = []"
proof (rule ccontr)
  assume "after \<noteq> []"
  then have "butlast frames = before @ ev # butlast after"
    using assms(2) by (simp add: butlast_append)
  then have "ev \<in> set (butlast frames)" by simp
  then show False using assms(1,3) by blast
qed

lemma generate_stream_error_last:
  assumes "fst (generate_stream e collab message session_id st) = before @ ev # after"
    and "event_type ev = ''error''"
  shows "after = []"
proof -
  have "\<forall>x\<in>set (butlast (fst (generate_stream e collab message session_id st))).
          event_type x \<noteq> ''error''"
    using generate_stream_shapes [of e collab message session_id st]
    by (auto simp: butlast_append)
  then show ?thesis using assms by (rule error_only_last)
qed

section \<open>The endpoints\<close>

lemma admin_only_authenticated: "authenticated e \<Longrightarrow> admin_only e run st = run"
  by (auto simp: authenticated_def admin_only_def split: option.splits)

lemma py_get_dict: "py_get data k d = Inr v \<Longrightarrow> \<exists>kvs. data = JDict kvs"
  by (cases data) simp_all

lemma read_chat_request_ok:
  assumes "py_get data ''message'' (JStr []) = Inr (JStr m)"
    and "py_get data ''session_id'' JNull = Inr session_id"
  shows "read_chat_request (Some data) = Inr (strip m, session_id)"
  using assms by (simp add: read_chat_request_def get_json_def)

lemma read_chat_request_default_id:
  assumes "py_get data ''message'' (JStr []) = Inr (JStr m)"
  shows "\<exists>session_id. read_chat_request (Some data) = Inr (strip m, session_id)"
proof -
  obtain kvs where "data = JDict kvs"
    using py_get_dict [OF assms] by blast
  then show ?thesis
    using assms by (simp add: read_chat_request_def get_json_def)
qed

lemma resolved_username_outside [simp]:
  "resolved_username (outside_request_context e) = ''anonymous''"
  by (simp add: resolved_username_def outside_request_context_def)

lemma outside_request_context_fields [simp]:
  "uuid4 (outside_request_context e) = uuid4 e"
  "now (outside_request_context e) = now e"
  "database_uri (outside_request_context e) = database_uri e"
  by (simp_all add: outside_request_context_def)

lemma issued_ids_outside [simp]: "issued_ids (outside_request_context e) st = issued_ids e st"
  by (simp add: issued_ids_def)

lemma registry_ok_outside [simp]: "registry_ok (outside_request_context e) st = registry_ok e st"
  by (simp add: registry_ok_def)

lemma chat_stream_api_streams:
  assumes "authenticated e" and "read_chat_request body = Inr (message, session_id)"
    and "message \<noteq> []"
  shows "chat_stream_api e collab body st =
           (Stream_response
              (fst (generate_stream (outside_request_context e) collab message session_id st)),
            snd (generate_stream (outside_request_context e) collab message session_id st))"
  using assms
  by (simp add: chat_stream_api_def admin_only_authenticated failure_tolerant_def split_beta)


lemma blank_rejected_chat_api:
  assumes "authenticated e" and "read_chat_request body = Inr ([], session_id)"
  shows "chat_api e collab body st =
           (Json_response 400 (JDict [(''error'', JStr ''Message is required'')]), st)"
  using assms
  by (simp add: chat_api_def admin_only_authenticated failure_tolerant_def)

lemma blank_rejected_chat_stream_api:
  assumes "authenticated e" and "read_chat_request body = Inr ([], session_id)"
  shows "chat_stream_api e collab body st =
           (Json_response 400 (JDict [(''error'', JStr ''Message is required'')]), st)"
  using assms
  by (simp add: chat_stream_api_def admin_only_authenticated failure_tolerant_def)

lemma chat_stream_api_frames:
  assumes "chat_stream_api e collab body st = (Stream_response frames, st')"
  shows "\<exists>message session_id.
           frames = fst (generate_stream (outside_request_context e) collab message session_id st)"
  using assms
  by (auto simp: chat_stream_api_def admin_only_def failure_tolerant_def split_beta
           split: option.splits if_splits sum.splits prod.splits)

lemma authenticated_env0: "authenticated env0"
  by (simp add: authenticated_def env0_def admin_def)


lemma strip_hello: "strip '' hello '' = ''hello''"
  by (simp add: strip_def isspace_def)

lemma strip_blank: "strip ''  '' = []"
  by (simp add: strip_def isspace_def)

lemma strip_space: "strip '' '' = []"
  by (simp add: strip_def isspace_def)

lemma create_session_env0_init: "create_session env0 init_agent = (uuid_str 0, agent1)"
  by (simp add: agent1_def create_session_def Let_def init_agent_def env0_def)

lemma agent1_invocations: "invocations agent1 = []"
  by (simp add: agent1_def create_session_invocations init_agent_def)

text \<open>A first streaming request without a session id, on the fresh agent.\<close>

lemma first_stream_request:
  assumes "py_get data ''message'' (JStr []) = Inr (JStr m)" and "strip m \<noteq> []"
    and "py_get data ''session_id'' JNull = Inr JNull"
  shows "fst (chat_stream_api env0 collab (Some data) init_agent) =
           Stream_response
              (session_event (JStr (uuid_str 0)) #
               map chunk_event
                 (filter (\<lambda>f. strip f \<noteq> [])
                    (fst (collab (relay_call env0 (strip m) (JStr (uuid_str 0)) ''anonymous'')))) @
               (case snd (collab (relay_call env0 (strip m) (JStr (uuid_str 0)) ''anonymous'')) of
                  Completes \<Rightarrow> [] | Raises \<Rightarrow> [chunk_event error_message]) @
               [done_event])"
proof -
  define e where "e = outside_request_context env0"
  define st1 where "st1 = snd (create_session e init_agent)"
  have fresh: "unknown_session JNull (sessions init_agent) = Inr True"
    by (simp add: unknown_session_def)
  have u: "fst (create_session e init_agent) = uuid_str 0"
    by (simp add: create_session_fst e_def init_agent_def env0_def)
  have m: "sessions st1 (uuid_str 0) = Some \<lparr>created_at = 1700000000, username = ''anonymous''\<rparr>"
    by (simp add: st1_def create_session_sessions e_def init_agent_def env0_def)
  have c: "relay_call e (strip m) (JStr (uuid_str 0)) ''anonymous'' =
           relay_call env0 (strip m) (JStr (uuid_str 0)) ''anonymous''"
    by (simp add: relay_call_def e_def)
  have "generate_stream e collab (strip m) JNull init_agent =
          generate_stream e collab (strip m) (JStr (uuid_str 0)) st1"
    using generate_stream_fresh [OF fresh, of e collab "strip m"] u by (simp add: st1_def)
  then have "fst (generate_stream e collab (strip m) JNull init_agent) =
          session_event (JStr (uuid_str 0)) #
               map chunk_event
                 (filter (\<lambda>f. strip f \<noteq> [])
                    (fst (collab (relay_call env0 (strip m) (JStr (uuid_str 0)) ''anonymous'')))) @
               (case snd (collab (relay_call env0 (strip m) (JStr (uuid_str 0)) ''anonymous'')) of
                  Completes \<Rightarrow> [] | Raises \<Rightarrow> [chunk_event error_message]) @
               [done_event]"
    using c
    by (cases "snd (collab (relay_call env0 (strip m) (JStr (uuid_str 0)) ''anonymous''))")
       (simp_all add: generate_stream_known [OF m] stream_chunks e_def)
  then show ?thesis
    using chat_stream_api_streams [OF authenticated_env0 read_chat_request_ok [OF assms(1,3)] assms(2),
            of collab init_agent]
    by (simp add: e_def)
qed

section \<open>Streaming chat\<close>

text \<open>
  C2 as stated fails. The claim has the stream be a \<open>session\<close> event and then a single
  \<open>error\<close> event when the collaborator raises before its first fragment. The exception
  is caught inside \<open>get_response_stream\<close>, which yields \<open>error_message\<close> as an ordinary
  chunk; \<open>generate_stream\<close> forwards it as a \<open>chunk\<close> event and then ends with \<open>done\<close>.
  No \<open>error\<close> event is sent.
\<close>

theorem chat_stream_collaborator_raises_counterexample:
  "failing (relay_call env0 ''hello'' (JStr (uuid_str 0)) ''anonymous'') = ([], Raises) \<and>
   fst (chat_stream_api env0 failing (Some hello_body) init_agent) =
     Stream_response [session_event (JStr (uuid_str 0)), chunk_event error_message, done_event] \<and>
   map event_type [session_event (JStr (uuid_str 0)), chunk_event error_message, done_event] =
     [''session'', ''chunk'', ''done'']"
proof -
  have "fst (chat_stream_api env0 failing (Some hello_body) init_agent) =
          Stream_response [session_event (JStr (uuid_str 0)), chunk_event error_message, done_event]"
    using first_stream_request [of hello_body "'' hello ''" failing]
    by (simp add: hello_body_def strip_hello failing_def)
  then show ?thesis
    by (simp add: failing_def)
qed

text \<open>
  C2, amended. For an authenticated request whose body is a dict with a message that is
  not blank and a session id the membership test accepts, the endpoint streams and calls
  the collaborator once with the stripped message; if that call raises before yielding
  any fragment, the stream is exactly a \<open>session\<close> event, one \<open>chunk\<close> event carrying
  \<open>error_message\<close>, and a \<open>done\<close> event. There is no \<open>error\<close> event.
\<close>

theorem chat_stream_collaborator_raises:
  assumes "authenticated e"
    and "py_get data ''message'' (JStr []) = Inr (JStr m)" and "strip m \<noteq> []"
    and "py_get data ''session_id'' JNull = Inr session_id" and "hashable session_id"
  shows "\<exists>c frames st'.
           chat_stream_api e collab (Some data) st = (Stream_response frames, st') \<and>
           invocations st' = invocations st @ [c] \<and> arg_message c = strip m \<and>
           (collab c = ([], Raises) \<longrightarrow>
              frames = [session_event (arg_session_id c), chunk_event error_message, done_event])"
proof -
  obtain c st' where
    "generate_stream (outside_request_context e) collab (strip m) session_id st =
       (session_event (arg_session_id c) #
        map chunk_event (filter (\<lambda>f. strip f \<noteq> []) (fst (collab c))) @
        (case snd (collab c) of Completes \<Rightarrow> [] | Raises \<Rightarrow> [chunk_event error_message]) @
        [done_event], st')"
    "invocations st' = invocations st @ [c]" "arg_message c = strip m"
    using generate_stream_relays [OF disjI1 [OF assms(5)], of "outside_request_context e" collab
            "strip m" st] by blast
  then show ?thesis
    using chat_stream_api_streams [OF assms(1) read_chat_request_ok [OF assms(2,4)] assms(3),
            of collab st]
    by auto
qed

theorem chat_stream_collaborator_raises_witness:
  "authenticated env0 \<and>
   py_get hello_body ''message'' (JStr []) = Inr (JStr '' hello '') \<and>
   strip '' hello '' \<noteq> [] \<and>
   py_get hello_body ''session_id'' JNull = Inr JNull \<and> hashable JNull \<and>
   (\<exists>sid. fst (chat_stream_api env0 failing (Some hello_body) init_agent) =
      Stream_response [session_event sid, chunk_event error_message, done_event])"
proof -
  have h1: "py_get hello_body ''message'' (JStr []) = Inr (JStr '' hello '')"
    and h2: "strip '' hello '' \<noteq> []"
    and h3: "py_get hello_body ''session_id'' JNull = Inr JNull"
    and h4: "hashable JNull"
    by (simp_all add: hello_body_def strip_hello)
  obtain c frames st' where
    r: "chat_stream_api env0 failing (Some hello_body) init_agent = (Stream_response frames, st')"
    and "failing c = ([], Raises) \<longrightarrow>
           frames = [session_event (arg_session_id c), chunk_event error_message, done_event]"
    using chat_stream_collaborator_raises [OF authenticated_env0 h1 h2 h3 h4, of failing init_agent]
    by blast
  then have "frames = [session_event (arg_session_id c), chunk_event error_message, done_event]"
    by (simp add: failing_def)
  with r authenticated_env0 h1 h2 h3 h4 show ?thesis by auto
qed

text \<open>
  C3 as stated fails, twice. A fragment made of whitespace is not empty, yet
  \<open>stream_response\<close> forwards a chunk only \<^verbatim>\<open>if chunk and chunk.strip()\<close>: the collaborator
  \<open>blank\<close> yields one non-empty fragment and the stream has no \<open>chunk\<close> event. And a
  message made of whitespace is not empty, yet it is stripped before the test and the
  endpoint answers 400 instead of streaming.
\<close>

theorem chat_stream_blank_fragment_counterexample:
  "blank (relay_call env0 ''hello'' (JStr (uuid_str 0)) ''anonymous'') = (['' ''], Completes) \<and>
   '' '' \<noteq> [] \<and>
   fst (chat_stream_api env0 blank (Some hello_body) init_agent) =
     Stream_response [session_event (JStr (uuid_str 0)), done_event] \<and>
   fst (chat_stream_api env0 talking (Some blank_body) init_agent) =
     Json_response 400 (JDict [(''error'', JStr ''Message is required'')])"
proof -
  have "fst (chat_stream_api env0 blank (Some hello_body) init_agent) =
          Stream_response [session_event (JStr (uuid_str 0)), done_event]"
    using first_stream_request [of hello_body "'' hello ''" blank]
    by (simp add: hello_body_def strip_hello blank_def strip_space)
  moreover have "read_chat_request (Some blank_body) = Inr ([], JNull)"
    by (simp add: read_chat_request_def get_json_def blank_body_def strip_blank)
  ultimately show ?thesis
    using blank_rejected_chat_stream_api [OF authenticated_env0, of "Some blank_body" JNull talking init_agent]
    by (simp add: blank_def)
qed

text \<open>
  C3, amended. For an authenticated request whose body is a dict with a message that is
  not blank (it has a character that is not whitespace) and a session id the membership
  test accepts, the endpoint streams and calls the collaborator once with the stripped
  message; if that call completes normally, the stream is exactly one \<open>session\<close> event,
  then one \<open>chunk\<close> event for each fragment that is not blank, in order and with the
  fragment unchanged, then one \<open>done\<close> event. This covers no fragment, one and many.
\<close>

theorem chat_stream_normal_completion:
  assumes "authenticated e"
    and "py_get data ''message'' (JStr []) = Inr (JStr m)" and "strip m \<noteq> []"
    and "py_get data ''session_id'' JNull = Inr session_id" and "hashable session_id"
  shows "\<exists>c frames st'.
           chat_stream_api e collab (Some data) st = (Stream_response frames, st') \<and>
           invocations st' = invocations st @ [c] \<and> arg_message c = strip m \<and>
           (snd (collab c) = Completes \<longrightarrow>
              frames = session_event (arg_session_id c) #
                       map chunk_event (filter (\<lambda>f. strip f \<noteq> []) (fst (collab c))) @
                       [done_event])"
proof -
  obtain c st' where
    "generate_stream (outside_request_context e) collab (strip m) session_id st =
       (session_event (arg_session_id c) #
        map chunk_event (filter (\<lambda>f. strip f \<noteq> []) (fst (collab c))) @
        (case snd (collab c) of Completes \<Rightarrow> [] | Raises \<Rightarrow> [chunk_event error_message]) @
        [done_event], st')"
    "invocations st' = invocations st @ [c]" "arg_message c = strip m"
    using generate_stream_relays [OF disjI1 [OF assms(5)], of "outside_request_context e" collab
            "strip m" st] by blast
  then show ?thesis
    using chat_stream_api_streams [OF assms(1) read_chat_request_ok [OF assms(2,4)] assms(3),
            of collab st]
    by auto
qed

theorem chat_stream_normal_completion_witness:
  "authenticated env0 \<and>
   py_get hello_body ''message'' (JStr []) = Inr (JStr '' hello '') \<and>
   strip '' hello '' \<noteq> [] \<and>
   py_get hello_body ''session_id'' JNull = Inr JNull \<and> hashable JNull \<and>
   (\<exists>sid. fst (chat_stream_api env0 talking (Some hello_body) init_agent) =
      Stream_response [session_event sid, chunk_event ''Hello'', chunk_event '', '',
                       chunk_event ''world'', done_event])"
proof -
  have h1: "py_get hello_body ''message'' (JStr []) = Inr (JStr '' hello '')"
    and h2: "strip '' hello '' \<noteq> []"
    and h3: "py_get hello_body ''session_id'' JNull = Inr JNull"
    and h4: "hashable JNull"
    by (simp_all add: hello_body_def strip_hello)
  have s: "strip ''Hello'' \<noteq> []" "strip '', '' \<noteq> []" "strip ''world'' \<noteq> []"
    by (simp_all add: strip_def isspace_def)
  obtain c frames st' where
    r: "chat_stream_api env0 talking (Some hello_body) init_agent = (Stream_response frames, st')"
    and "snd (talking c) = Completes \<longrightarrow>
           frames = session_event (arg_session_id c) #
                    map chunk_event (filter (\<lambda>f. strip f \<noteq> []) (fst (talking c))) @ [done_event]"
    using chat_stream_normal_completion [OF authenticated_env0 h1 h2 h3 h4, of talking init_agent]
    by blast
  then have "frames = [session_event (arg_session_id c), chunk_event ''Hello'', chunk_event '', '',
                       chunk_event ''world'', done_event]"
    using s by (simp add: talking_def)
  with r authenticated_env0 h1 h2 h3 h4 show ?thesis by auto
qed

text \<open>
  C8. In every stream the streaming endpoint produces, whatever the request and the
  collaborator, an \<open>error\<close> event is the last frame: nothing, and so no \<open>done\<close> event,
  follows it. The stream is a finite list of frames, so it ends.
\<close>

theorem error_event_ends_stream:
  assumes "chat_stream_api e collab body st = (Stream_response frames, st')"
    and "frames = before @ ev # after" and "event_type ev = ''error''"
  shows "after = []"
proof -
  obtain message session_id where
    "frames = fst (generate_stream (outside_request_context e) collab message session_id st)"
    using chat_stream_api_frames [OF assms(1)] by blast
  then show ?thesis
    using assms(2,3)
      generate_stream_error_last [of "outside_request_context e" collab message session_id st
        before ev after]
    by simp
qed

theorem error_event_ends_stream_witness:
  "chat_stream_api env0 talking (Some list_id_body) init_agent =
     (Stream_response [error_event], init_agent) \<and>
   [error_event] = [] @ error_event # [] \<and> event_type error_event = ''error'' \<and>
   ([] :: json list) = []"
proof -
  have r: "read_chat_request (Some list_id_body) = Inr (''hello'', JList [JInt 1])"
    by (simp add: read_chat_request_def get_json_def list_id_body_def strip_def isspace_def)
  have u: "unknown_session (JList [JInt 1]) (sessions init_agent) = Inl TypeError"
    by (simp add: unknown_session_def)
  have h1: "chat_stream_api env0 talking (Some list_id_body) init_agent =
              (Stream_response [error_event], init_agent)"
    using chat_stream_api_streams [OF authenticated_env0 r, of talking init_agent]
      generate_stream_unhashable [OF u, of "outside_request_context env0" talking "''hello''"]
    by simp
  have h2: "[error_event] = [] @ error_event # []" by simp
  have h3: "event_type error_event = ''error''" by simp
  show ?thesis
    using error_event_ends_stream [OF h1 h2 h3] h1 h2 h3 by simp
qed

text \<open>
  C6. For an authenticated request whose body is a dict and whose message is empty,
  absent, or made of whitespace only, both chat endpoints answer 400 with the body
  \<^verbatim>\<open>{"error": "Message is required"}\<close> and leave the agent as it was: the log of collaborator
  calls is unchanged, so the collaborator is not invoked.
\<close>

theorem blank_message_rejected:
  assumes "authenticated e"
    and "py_get data ''message'' (JStr []) = Inr (JStr m)" and "\<forall>c\<in>set m. isspace c"
  shows "chat_api e collab (Some data) st =
           (Json_response 400 (JDict [(''error'', JStr ''Message is required'')]), st) \<and>
         chat_stream_api e collab (Some data) st =
           (Json_response 400 (JDict [(''error'', JStr ''Message is required'')]), st) \<and>
         invocations (snd (chat_api e collab (Some data) st)) = invocations st \<and>
         invocations (snd (chat_stream_api e collab (Some data) st)) = invocations st"
proof -
  have "strip m = []"
    using assms(3) by (simp add: strip_Nil_iff)
  then obtain session_id where r: "read_chat_request (Some data) = Inr ([], session_id)"
    using read_chat_request_default_id [OF assms(2)] by auto
  show ?thesis
    by (simp add: blank_rejected_chat_api [OF assms(1) r]
          blank_rejected_chat_stream_api [OF assms(1) r])
qed

theorem blank_message_rejected_witness:
  "authenticated env0 \<and>
   py_get blank_body ''message'' (JStr []) = Inr (JStr ''  '') \<and>
   isspace (CHR '' '') \<and>
   chat_api env0 talking (Some blank_body) init_agent =
     (Json_response 400 (JDict [(''error'', JStr ''Message is required'')]), init_agent) \<and>
   chat_stream_api env0 talking (Some blank_body) init_agent =
     (Json_response 400 (JDict [(''error'', JStr ''Message is required'')]), init_agent)"
proof -
  have h1: "py_get blank_body ''message'' (JStr []) = Inr (JStr ''  '')"
    by (simp add: blank_body_def)
  have h2: "\<forall>c\<in>set ''  ''. isspace c"
    by (simp add: isspace_def)
  have h3: "isspace (CHR '' '')"
    by (simp add: isspace_def)
  show ?thesis
    using blank_message_rejected [OF authenticated_env0 h1 h2, of talking init_agent]
      authenticated_env0 h1 h3
    by simp
qed

section \<open>The registry across requests\<close>

lemma registry_ok_cong:
  "sessions a = sessions b \<Longrightarrow> issued a = issued b \<Longrightarrow> registry_ok e a = registry_ok e b"
  by (simp add: registry_ok_def issued_ids_def)

lemma registry_ok_sync_get_response:
  assumes "registry_ok e st"
  shows "registry_ok e (snd (sync_get_response e collab message session_id uname st))"
proof (cases "unknown_session session_id (sessions st)")
  case (Inl err)
  then show ?thesis
    using assms by (simp add: sync_get_response_unhashable)
next
  case (Inr b)
  show ?thesis
  proof (cases b)
    case False
    then obtain s meta where s: "session_id = JStr s" "s \<noteq> []" "sessions st s = Some meta"
      using unknown_session_False [of session_id "sessions st"] Inr by auto
    show ?thesis
      using assms s by (simp add: sync_get_response_known [OF s(3) s(2)])
  next
    case True
    have m: "sessions (snd (create_session e st)) (uuid_str (uuid4 e (issued st))) =
               Some \<lparr>created_at = now e (clock_reads st), username = resolved_username e\<rparr>"
      by (simp add: create_session_sessions)
    show ?thesis
      using Inr True registry_ok_create_session [OF assms]
      by (simp add: sync_get_response_fresh create_session_fst sync_get_response_known [OF m])
  qed
qed

lemma registry_ok_generate_stream:
  assumes "registry_ok e st"
  shows "registry_ok e (snd (generate_stream e collab message session_id st))"
proof (cases "unknown_session session_id (sessions st)")
  case (Inl err)
  then show ?thesis
    using assms by (simp add: generate_stream_unhashable)
next
  case (Inr b)
  show ?thesis
  proof (cases b)
    case False
    then obtain s meta where s: "session_id = JStr s" "s \<noteq> []" "sessions st s = Some meta"
      using unknown_session_False [of session_id "sessions st"] Inr by auto
    show ?thesis
      using assms s by (simp add: generate_stream_known [OF s(3) s(2)])
  next
    case True
    have m: "sessions (snd (create_session e st)) (uuid_str (uuid4 e (issued st))) =
               Some \<lparr>created_at = now e (clock_reads st), username = resolved_username e\<rparr>"
      by (simp add: create_session_sessions)
    show ?thesis
      using Inr True registry_ok_create_session [OF assms]
      by (simp add: generate_stream_fresh create_session_fst generate_stream_known [OF m])
  qed
qed

lemma registry_ok_admin_only:
  "registry_ok e st \<Longrightarrow> registry_ok e (snd run) \<Longrightarrow> registry_ok e (snd (admin_only e run st))"
  by (simp add: admin_only_def split: option.splits)

lemma snd_failure_tolerant: "snd (failure_tolerant run) = snd run"
  by (simp add: failure_tolerant_def split: prod.splits sum.splits)

lemma registry_ok_new_session:
  "registry_ok e st \<Longrightarrow> registry_ok e (snd (new_session e st))"
  unfolding new_session_def
  by (rule registry_ok_admin_only)
     (simp_all add: snd_failure_tolerant split_beta registry_ok_create_session)

lemma registry_ok_chat_api:
  assumes "registry_ok e st"
  shows "registry_ok e (snd (chat_api e collab body st))"
  unfolding chat_api_def
  using assms
  by (intro registry_ok_admin_only)
     (auto simp: snd_failure_tolerant split_beta registry_ok_sync_get_response split: sum.splits)

lemma registry_ok_generate_stream_outside:
  assumes "registry_ok e st"
  shows "registry_ok e (snd (generate_stream (outside_request_context e) collab message session_id st))"
  using registry_ok_generate_stream [of "outside_request_context e" st collab message session_id]
    assms
  by simp

lemma registry_ok_chat_stream_api:
  assumes "registry_ok e st"
  shows "registry_ok e (snd (chat_stream_api e collab body st))"
  unfolding chat_stream_api_def
  using assms registry_ok_generate_stream_outside [OF assms, of collab]
  by (intro registry_ok_admin_only)
     (auto simp: snd_failure_tolerant split_beta registry_ok_generate_stream split: sum.splits)

lemma registry_ok_remove: "registry_ok e st \<Longrightarrow> registry_ok e (st\<lparr>sessions := (sessions st)(s := None)\<rparr>)"
  by (auto simp: registry_ok_def issued_ids_def)

lemma py_delitem_Inr: "py_delitem m sid = Inr m' \<Longrightarrow> \<exists>s. sid = JStr s \<and> m' = m(s := None)"
  by (cases sid) (auto split: option.splits)

lemma registry_ok_clear_session:
  assumes "registry_ok e st"
  shows "registry_ok e (snd (clear_session e body st))"
  unfolding clear_session_def
  using assms
  by (intro registry_ok_admin_only)
     (auto simp: snd_failure_tolerant registry_ok_remove split: sum.splits bool.splits
           dest!: py_delitem_Inr)

section \<open>Clearing a session\<close>

lemma clear_session_absent:
  assumes "authenticated e" and "py_get data ''session_id'' JNull = Inr session_id"
    and "unknown_session session_id (sessions st) = Inr True"
  shows "clear_session e (Some data) st =
           (Json_response 404 (JDict [(''error'', JStr ''Session not found'')]), st)"
  using assms
  by (cases session_id)
     (auto simp: clear_session_def admin_only_authenticated failure_tolerant_def get_json_def
        unknown_session_def split: if_splits)

lemma clear_session_present:
  assumes "authenticated e" and "py_get data ''session_id'' JNull = Inr (JStr s)"
    and "sessions st s \<noteq> None" and "s \<noteq> []"
  shows "clear_session e (Some data) st =
           (Json_response 200 (JDict [(''message'', JStr ''Session cleared successfully'')]),
            st\<lparr>sessions := (sessions st)(s := None)\<rparr>)"
  using assms
  by (auto simp: clear_session_def admin_only_authenticated failure_tolerant_def get_json_def)

text \<open>
  C5. For an authenticated request whose body is a dict with a session id the
  membership test accepts: if the id is not a key of the registry, \<open>clear_session\<close>
  answers 404 and leaves the agent as it was; if it is a key, \<open>clear_session\<close> removes
  that entry, answers 200, and the same request made again at once is answered 404.
\<close>

theorem clear_session_removes_once:
  assumes "authenticated e" and "registry_ok e st"
    and "py_get data ''session_id'' JNull = Inr session_id" and "hashable session_id"
  shows "((\<forall>s. session_id = JStr s \<longrightarrow> sessions st s = None) \<longrightarrow>
            clear_session e (Some data) st =
              (Json_response 404 (JDict [(''error'', JStr ''Session not found'')]), st)) \<and>
         (\<forall>s. session_id = JStr s \<and> sessions st s \<noteq> None \<longrightarrow>
            clear_session e (Some data) st =
              (Json_response 200 (JDict [(''message'', JStr ''Session cleared successfully'')]),
               st\<lparr>sessions := (sessions st)(s := None)\<rparr>) \<and>
            fst (clear_session e (Some data) (snd (clear_session e (Some data) st))) =
              Json_response 404 (JDict [(''error'', JStr ''Session not found'')]))"
proof (intro conjI allI impI)
  assume absent: "\<forall>s. session_id = JStr s \<longrightarrow> sessions st s = None"
  have "unknown_session session_id (sessions st) = Inr True"
    using absent assms(4) by (cases session_id) (auto simp: unknown_session_def)
  then show "clear_session e (Some data) st =
               (Json_response 404 (JDict [(''error'', JStr ''Session not found'')]), st)"
    by (rule clear_session_absent [OF assms(1,3)])
next
  fix s
  assume present: "session_id = JStr s \<and> sessions st s \<noteq> None"
  then have ne: "s \<noteq> []"
    using registry_ok_nonempty [OF assms(2)] by blast
  have get: "py_get data ''session_id'' JNull = Inr (JStr s)"
    using assms(3) present by simp
  show first: "clear_session e (Some data) st =
               (Json_response 200 (JDict [(''message'', JStr ''Session cleared successfully'')]),
                st\<lparr>sessions := (sessions st)(s := None)\<rparr>)"
    using present ne by (intro clear_session_present [OF assms(1) get]) simp_all
  have "unknown_session session_id (sessions (st\<lparr>sessions := (sessions st)(s := None)\<rparr>)) = Inr True"
    using present by (simp add: unknown_session_JStr)
  then show "fst (clear_session e (Some data) (snd (clear_session e (Some data) st))) =
               Json_response 404 (JDict [(''error'', JStr ''Session not found'')])"
    using clear_session_absent [OF assms(1,3)] first by simp
qed

theorem clear_session_removes_once_witness:
  "authenticated env0 \<and> registry_ok env0 agent1 \<and> registry_ok env0 init_agent \<and>
   py_get first_id_body ''session_id'' JNull = Inr (JStr (uuid_str 0)) \<and>
   hashable (JStr (uuid_str 0)) \<and>
   sessions init_agent (uuid_str 0) = None \<and> sessions agent1 (uuid_str 0) \<noteq> None \<and>
   clear_session env0 (Some first_id_body) init_agent =
     (Json_response 404 (JDict [(''error'', JStr ''Session not found'')]), init_agent) \<and>
   clear_session env0 (Some first_id_body) agent1 =
     (Json_response 200 (JDict [(''message'', JStr ''Session cleared successfully'')]),
      agent1\<lparr>sessions := (sessions agent1)(uuid_str 0 := None)\<rparr>) \<and>
   fst (clear_session env0 (Some first_id_body)
          (snd (clear_session env0 (Some first_id_body) agent1))) =
     Json_response 404 (JDict [(''error'', JStr ''Session not found'')])"
proof -
  have g: "py_get first_id_body ''session_id'' JNull = Inr (JStr (uuid_str 0))"
    by (simp add: first_id_body_def)
  have h: "hashable (JStr (uuid_str 0))" by simp
  have a: "sessions init_agent (uuid_str 0) = None"
    by (simp add: init_agent_def)
  have p: "sessions agent1 (uuid_str 0) \<noteq> None"
    by (simp add: agent1_sessions)
  have c0: "clear_session env0 (Some first_id_body) init_agent =
              (Json_response 404 (JDict [(''error'', JStr ''Session not found'')]), init_agent)"
    using clear_session_removes_once [OF authenticated_env0 registry_ok_init g h] a by simp
  have c1: "clear_session env0 (Some first_id_body) agent1 =
              (Json_response 200 (JDict [(''message'', JStr ''Session cleared successfully'')]),
               agent1\<lparr>sessions := (sessions agent1)(uuid_str 0 := None)\<rparr>) \<and>
            fst (clear_session env0 (Some first_id_body)
                   (snd (clear_session env0 (Some first_id_body) agent1))) =
              Json_response 404 (JDict [(''error'', JStr ''Session not found'')])"
    using clear_session_removes_once [OF authenticated_env0 registry_ok_agent1 g h] p by blast
  show ?thesis
    using authenticated_env0 registry_ok_agent1 registry_ok_init [of env0] g h a p c0 c1
    by blast
qed

text \<open>
  C10. For an authenticated request whose body is a dict in which \<^verbatim>\<open>session_id\<close> is
  missing (\<^verbatim>\<open>data.get\<close> then gives \<^verbatim>\<open>None\<close>), null, the empty string or any other falsy
  value, \<open>clear_session\<close> answers the 404 \<^verbatim>\<open>{"error": "Session not found"}\<close> of an unknown
  id and leaves the agent as it was; the answer is neither the 400 of a validation error
  nor the 500 of an internal one.
\<close>

theorem clear_session_missing_id:
  assumes "authenticated e" and "py_get data ''session_id'' JNull = Inr session_id"
    and "\<not> truthy session_id"
  shows "clear_session e (Some data) st =
           (Json_response 404 (JDict [(''error'', JStr ''Session not found'')]), st)"
proof -
  have "unknown_session session_id (sessions st) = Inr True"
    using assms(3) by (simp add: unknown_session_def)
  then show ?thesis
    by (rule clear_session_absent [OF assms(1,2)])
qed

theorem clear_session_missing_id_witness:
  "authenticated env0 \<and>
   py_get hello_body ''session_id'' JNull = Inr JNull \<and> \<not> truthy JNull \<and>
   py_get empty_id_body ''session_id'' JNull = Inr (JStr []) \<and> \<not> truthy (JStr []) \<and>
   clear_session env0 (Some hello_body) agent1 =
     (Json_response 404 (JDict [(''error'', JStr ''Session not found'')]), agent1) \<and>
   clear_session env0 (Some empty_id_body) agent1 =
     (Json_response 404 (JDict [(''error'', JStr ''Session not found'')]), agent1)"
proof -
  have g1: "py_get hello_body ''session_id'' JNull = Inr JNull"
    by (simp add: hello_body_def)
  have g2: "py_get empty_id_body ''session_id'' JNull = Inr (JStr [])"
    by (simp add: empty_id_body_def)
  have t1: "\<not> truthy JNull" and t2: "\<not> truthy (JStr [])"
    by simp_all
  show ?thesis
    using clear_session_missing_id [OF authenticated_env0 g1 t1, of agent1]
      clear_session_missing_id [OF authenticated_env0 g2 t2, of agent1]
      authenticated_env0 g1 g2
    by simp
qed

section \<open>A request without a known session\<close>







end
